theory Spec2Isabelle
  imports Main "HOL-Library.Sublist" "HOL-Library.Word"
begin

section \<open>Python strings\<close>

text \<open>
  A Python \<^verbatim>\<open>str\<close> is a sequence of Unicode code points, and \<^verbatim>\<open>len\<close> counts code
  points. A string is therefore a list of code points, each a natural number; a literal
  of the source is written \<open>str_of ''...''\<close>, and a character outside ASCII is given by
  its code point.
\<close>

type_synonym pystr = "nat list"

definition str_of :: "string \<Rightarrow> pystr" where
  "str_of cs = map of_char cs"

text \<open>
  The characters that \<^verbatim>\<open>str.strip()\<close> without an argument removes: the code points for
  which \<^verbatim>\<open>str.isspace\<close> holds.
\<close>

definition is_space :: "nat \<Rightarrow> bool" where
  "is_space c \<longleftrightarrow>
     (9 \<le> c \<and> c \<le> 13) \<or> (28 \<le> c \<and> c \<le> 32) \<or> c = 133 \<or> c = 160 \<or> c = 5760 \<or>
     (8192 \<le> c \<and> c \<le> 8202) \<or> c = 8232 \<or> c = 8233 \<or> c = 8239 \<or> c = 8287 \<or>
     c = 12288"

definition lstrip :: "pystr \<Rightarrow> pystr" where
  "lstrip s = dropWhile is_space s"

definition rstrip :: "pystr \<Rightarrow> pystr" where
  "rstrip s = rev (dropWhile is_space (rev s))"

definition strip :: "pystr \<Rightarrow> pystr" where
  "strip s = rstrip (lstrip s)"

text \<open>\<^verbatim>\<open>s.split(sep)\<close> for a separator of one character: never an empty list.\<close>

fun split_on :: "nat \<Rightarrow> pystr \<Rightarrow> pystr list" where
  "split_on sep [] = [[]]"
| "split_on sep (c # cs) =
     (if c = sep then [] # split_on sep cs
      else (case split_on sep cs of
              [] \<Rightarrow> [[c]]
            | l # ls \<Rightarrow> (c # l) # ls))"

text \<open>\<^verbatim>\<open>s.split(sep, 1)\<close>: one part when \<open>sep\<close> does not occur, two parts otherwise.\<close>

definition split_once :: "nat \<Rightarrow> pystr \<Rightarrow> pystr list" where
  "split_once sep s =
     (if sep \<in> set s
      then [takeWhile (\<lambda>c. c \<noteq> sep) s, tl (dropWhile (\<lambda>c. c \<noteq> sep) s)]
      else [s])"

text \<open>
  \<^verbatim>\<open>s.replace(old, '')\<close>: the occurrences of \<open>old\<close> are removed from left to right,
  without overlap.
\<close>

function remove_all :: "pystr \<Rightarrow> pystr \<Rightarrow> pystr" where
  "remove_all old [] = []"
| "remove_all old (c # cs) =
     (if old = [] then c # cs
      else if prefix old (c # cs) then remove_all old (drop (length old) (c # cs))
      else c # remove_all old cs)"
  by pat_completeness auto
termination
  by (relation "measure (\<lambda>(old, s). length s)") (auto simp: neq_Nil_conv)

text \<open>\<^verbatim>\<open>sep.join(parts)\<close>.\<close>

fun join :: "pystr \<Rightarrow> pystr list \<Rightarrow> pystr" where
  "join sep [] = []"
| "join sep [x] = x"
| "join sep (x # y # ys) = x @ sep @ join sep (y # ys)"

text \<open>\<^verbatim>\<open>s.split()\<close>: the maximal runs of characters that are not whitespace.\<close>

fun split_ws_from :: "pystr \<Rightarrow> pystr \<Rightarrow> pystr list" where
  "split_ws_from cur [] = (if cur = [] then [] else [cur])"
| "split_ws_from cur (c # cs) =
     (if is_space c then (if cur = [] then [] else [cur]) @ split_ws_from [] cs
      else split_ws_from (cur @ [c]) cs)"

definition split_ws :: "pystr \<Rightarrow> pystr list" where
  "split_ws s = split_ws_from [] s"

text \<open>\<^verbatim>\<open>str(n)\<close> for a count \<open>n\<close>: its decimal digits.\<close>

fun str_nat :: "nat \<Rightarrow> pystr" where
  "str_nat n = (if n < 10 then [48 + n] else str_nat (n div 10) @ [48 + n mod 10])"

declare str_nat.simps [simp del]

section \<open>Exceptions\<close>

text \<open>
  The exceptions that the modelled code raises. \<open>Exception msg\<close> is the plain
  \<^verbatim>\<open>Exception(msg)\<close> that \<^verbatim>\<open>call_llm\<close> raises itself; the others are raised by
  subscripting and by \<^verbatim>\<open>encode\<close>.
\<close>

datatype pyexc =
    Exception pystr
  | KeyError
  | IndexError
  | TypeError
  | UnicodeEncodeError

definition and_then :: "pyexc + 'a \<Rightarrow> ('a \<Rightarrow> pyexc + 'b) \<Rightarrow> pyexc + 'b" where
  "and_then r f = (case r of Inl e \<Rightarrow> Inl e | Inr x \<Rightarrow> f x)"

section \<open>The generation call\<close>

text \<open>
  \<^verbatim>\<open>call_llm\<close> posts the request and reads the answer. The value decoded by
  \<^verbatim>\<open>response.json()\<close> is a JSON value (numbers are kept as integers: no branch of the
  code looks at one); an object is the list of its members, each key once.
\<close>

datatype json =
    JNull
  | JBool bool
  | JNum int
  | JStr pystr
  | JArr "json list"
  | JObj "(pystr \<times> json) list"

text \<open>
  What \<^verbatim>\<open>requests.post\<close>, \<^verbatim>\<open>raise_for_status\<close> and \<^verbatim>\<open>response.json()\<close> leave
  \<^verbatim>\<open>call_llm\<close> with: a \<^verbatim>\<open>Timeout\<close>, another \<^verbatim>\<open>RequestException\<close> with its text
  (connection failure, HTTP error status, undecodable body), or the decoded body.
\<close>

datatype http_outcome =
    Timeout
  | RequestFailed pystr
  | Body json

text \<open>\<^verbatim>\<open>v[key]\<close> for a string key, and \<^verbatim>\<open>v[i]\<close> for an index that is not negative.\<close>

definition subscript_key :: "json \<Rightarrow> pystr \<Rightarrow> pyexc + json" where
  "subscript_key v k =
     (case v of
        JObj kvs \<Rightarrow> (case map_of kvs k of None \<Rightarrow> Inl KeyError | Some x \<Rightarrow> Inr x)
      | _ \<Rightarrow> Inl TypeError)"

definition subscript_index :: "json \<Rightarrow> nat \<Rightarrow> pyexc + json" where
  "subscript_index v i =
     (case v of
        JObj kvs \<Rightarrow> Inl KeyError
      | JArr xs \<Rightarrow> (if i < length xs then Inr (xs ! i) else Inl IndexError)
      | JStr s \<Rightarrow> (if i < length s then Inr (JStr [s ! i]) else Inl IndexError)
      | _ \<Rightarrow> Inl TypeError)"

text \<open>\<^verbatim>\<open>result['choices'][0]['message']['content']\<close>.\<close>

definition response_content :: "json \<Rightarrow> pyexc + json" where
  "response_content result =
     and_then (subscript_key result (str_of ''choices'')) (\<lambda>choices.
     and_then (subscript_index choices 0) (\<lambda>choice.
     and_then (subscript_key choice (str_of ''message'')) (\<lambda>message.
     subscript_key message (str_of ''content''))))"

text \<open>
  The \<^verbatim>\<open>try\<close> of \<^verbatim>\<open>call_llm\<close> with its three handlers, in their order: \<^verbatim>\<open>Timeout\<close>,
  \<^verbatim>\<open>RequestException\<close>, \<^verbatim>\<open>KeyError\<close>. Any other exception leaves the function as it is.
\<close>

definition call_llm :: "http_outcome \<Rightarrow> pyexc + json" where
  "call_llm outcome =
     (case outcome of
        Timeout \<Rightarrow> Inl (Exception (str_of ''Request timed out. Please try again.''))
      | RequestFailed e \<Rightarrow> Inl (Exception (str_of ''Connection error: '' @ e))
      | Body result \<Rightarrow>
          (case response_content result of
             Inl KeyError \<Rightarrow> Inl (Exception (str_of ''Unexpected response format from AI.''))
           | Inl e \<Rightarrow> Inl e
           | Inr content \<Rightarrow> Inr content))"

section \<open>Story templates\<close>

record template =
  title :: pystr
  premise :: pystr

text \<open>
  A Python \<^verbatim>\<open>dict\<close> keeps its keys in insertion order, and assigning to a key that is
  present keeps the key's place: an association list with distinct keys.
\<close>

type_synonym templates = "(pystr \<times> template) list"

fun dict_set :: "'k \<Rightarrow> 'v \<Rightarrow> ('k \<times> 'v) list \<Rightarrow> ('k \<times> 'v) list" where
  "dict_set k v [] = [(k, v)]"
| "dict_set k v ((k', v') # d) =
     (if k' = k then (k, v) # d else (k', v') # dict_set k v d)"

text \<open>
  The state of the loop of \<^verbatim>\<open>parse_templates\<close>: \<^verbatim>\<open>templates\<close>, \<^verbatim>\<open>current_template\<close>
  and \<^verbatim>\<open>current_premise\<close>.
\<close>

type_synonym parse_state = "templates \<times> pystr option \<times> pystr list"

definition truthy :: "pystr option \<Rightarrow> bool" where
  "truthy v = (case v of None \<Rightarrow> False | Some s \<Rightarrow> s \<noteq> [])"

text \<open>
  \<^verbatim>\<open>if current_template and current_premise: templates[current_template] = {...}\<close>, as
  it stands before a new marker is read and after the loop. Reading
  \<^verbatim>\<open>templates[current_template]["title"]\<close> raises \<^verbatim>\<open>KeyError\<close> for a missing key.
\<close>

definition flush :: "templates \<Rightarrow> pystr option \<Rightarrow> pystr list \<Rightarrow> pyexc + templates" where
  "flush tmpls current_template current_premise =
     (if truthy current_template \<and> current_premise \<noteq> [] then
        (case current_template of
           None \<Rightarrow> Inr tmpls
         | Some cur \<Rightarrow>
             (case map_of tmpls cur of
                None \<Rightarrow> Inl KeyError
              | Some t \<Rightarrow>
                  Inr (dict_set cur
                        \<lparr>title = title t,
                         premise = strip (join (str_of '' '') current_premise)\<rparr> tmpls)))
      else Inr tmpls)"

text \<open>
  The key that a marker line stores its template under, from the part of the line
  before its first colon: \<^verbatim>\<open>f"template_{parts[0].replace('TEMPLATE', '').strip()}"\<close>.
\<close>

definition template_key :: "pystr \<Rightarrow> pystr" where
  "template_key part0 =
     (let template_num = strip (remove_all (str_of ''TEMPLATE'') part0)
      in str_of ''template_'' @ template_num)"

text \<open>The body of the loop, for one line. \<open>58\<close> is the colon.\<close>

definition parse_line :: "parse_state \<Rightarrow> pystr \<Rightarrow> pyexc + parse_state" where
  "parse_line st raw_line =
     (case st of (tmpls, current_template, current_premise) \<Rightarrow>
        let line = strip raw_line in
        if prefix (str_of ''TEMPLATE'') line then
          and_then (flush tmpls current_template current_premise) (\<lambda>tmpls'.
            let parts = split_once 58 line in
            if length parts = 2 then
              let cur = template_key (parts ! 0);
                  ttl = strip (parts ! 1)
              in Inr (dict_set cur \<lparr>title = ttl, premise = []\<rparr> tmpls', Some cur, [])
            else Inr (tmpls', current_template, current_premise))
        else if line \<noteq> [] \<and> truthy current_template then
          Inr (tmpls, current_template, current_premise @ [line])
        else Inr st)"

fun parse_lines :: "parse_state \<Rightarrow> pystr list \<Rightarrow> pyexc + parse_state" where
  "parse_lines st [] = Inr st"
| "parse_lines st (l # ls) =
     (case parse_line st l of
        Inl e \<Rightarrow> Inl e
      | Inr st' \<Rightarrow> parse_lines st' ls)"

definition default_templates :: templates where
  "default_templates =
     [(str_of ''template_1'',
        \<lparr>title = str_of ''The Beginning'', premise = str_of ''Your adventure starts here...''\<rparr>),
      (str_of ''template_2'',
        \<lparr>title = str_of ''New Horizons'', premise = str_of ''A new challenge appears...''\<rparr>),
      (str_of ''template_3'',
        \<lparr>title = str_of ''The Journey'', premise = str_of ''An epic tale unfolds...''\<rparr>)]"

text \<open>What the loop and the last flush have collected, before the final \<^verbatim>\<open>return\<close>.\<close>

definition parsed_templates :: "pystr \<Rightarrow> pyexc + templates" where
  "parsed_templates response =
     and_then (parse_lines ([], None, []) (split_on 10 (strip response)))
       (\<lambda>(tmpls, current_template, current_premise).
          flush tmpls current_template current_premise)"

definition parse_templates :: "pystr \<Rightarrow> pyexc + templates" where
  "parse_templates response =
     and_then (parsed_templates response)
       (\<lambda>tmpls. Inr (if length tmpls \<ge> 3 then tmpls else default_templates))"

text \<open>
  Two notions for stating what the parser delivers. The keys named by the marker lines
  among some lines: a marker line is a line that, stripped, starts with \<^verbatim>\<open>TEMPLATE\<close>
  and has a colon. The completed seeds of a set of templates, in the words of the
  specification: the templates whose premise is not empty.
\<close>

definition line_keys :: "pystr list \<Rightarrow> pystr list" where
  "line_keys ls =
     map (\<lambda>l. template_key (takeWhile (\<lambda>c. c \<noteq> 58) l))
       (filter (\<lambda>l. prefix (str_of ''TEMPLATE'') l \<and> 58 \<in> set l) (map strip ls))"

definition marker_keys :: "pystr \<Rightarrow> pystr list" where
  "marker_keys response = line_keys (split_on 10 (strip response))"

definition completed_seeds :: "templates \<Rightarrow> templates" where
  "completed_seeds tmpls = filter (\<lambda>(k, t). premise t \<noteq> []) tmpls"



section \<open>Sessions\<close>

datatype role = User | Assistant

record message =
  role :: role
  content :: pystr

text \<open>
  \<^verbatim>\<open>context.user_data\<close>, the dictionary of one user: each key that the code stores is a
  field, \<open>None\<close> when the key is absent. \<^verbatim>\<open>user_data.clear()\<close> leaves \<open>empty_session\<close>.
\<close>

record session =
  genre :: "pystr option"
  mode :: "pystr option"
  character_name :: "pystr option"
  character_traits :: "pystr option"
  character_background :: "pystr option"
  template :: "template option"
  templates :: "templates option"
  story_history :: "message list option"
  last_failed_message :: "pystr option"

definition empty_session :: session where
  "empty_session =
     \<lparr>genre = None, mode = None, character_name = None, character_traits = None,
      character_background = None, template = None, templates = None,
      story_history = None, last_failed_message = None\<rparr>"

text \<open>\<^verbatim>\<open>d.get(key, default)\<close>.\<close>

definition get_or :: "'a option \<Rightarrow> 'a \<Rightarrow> 'a" where
  "get_or v d = (case v of None \<Rightarrow> d | Some x \<Rightarrow> x)"

definition GENRES :: "(pystr \<times> pystr) list" where
  "GENRES =
     [(str_of ''fantasy'', 128009 # str_of '' Fantasy''),
      (str_of ''scifi'', 128640 # str_of '' Sci-Fi''),
      (str_of ''mystery'', 128269 # str_of '' Mystery''),
      (str_of ''horror'', 128123 # str_of '' Horror''),
      (str_of ''romance'', 128149 # str_of '' Romance''),
      (str_of ''adventure'', 9876 # 65039 # str_of '' Adventure'')]"

record mode_info =
  name :: pystr
  desc :: pystr

definition STORY_MODES :: "(pystr \<times> mode_info) list" where
  "STORY_MODES =
     [(str_of ''guided'',
        \<lparr>name = 128214 # str_of '' Tell Me a Story'', desc = str_of ''AI leads, you react''\<rparr>),
      (str_of ''adventure'',
        \<lparr>name = 127918 # str_of '' Adventure Mode'', desc = str_of ''You make choices''\<rparr>),
      (str_of ''cowrite'',
        \<lparr>name = 9997 # 65039 # str_of '' Co-Write'', desc = str_of ''Take turns writing''\<rparr>)]"

definition get_story_progress :: "session \<Rightarrow> nat" where
  "get_story_progress s =
     length (filter (\<lambda>msg. role msg = User) (get_or (story_history s) []))"

section \<open>The generation call as its callers see it\<close>

text \<open>
  The handlers call \<^verbatim>\<open>call_llm(messages, system_prompt, max_tokens)\<close> inside a
  \<^verbatim>\<open>try\<close> and use either the text it returns or \<^verbatim>\<open>str(e)\<close> of the exception it
  raises. The remote service is not part of the program, so the call is a parameter:
  \<open>Inr text\<close> when it returns, \<open>Inl msg\<close> when it raises.
\<close>

type_synonym llm = "message list \<Rightarrow> pystr \<Rightarrow> nat \<Rightarrow> pystr + pystr"

definition templates_prompt :: "pystr \<Rightarrow> pystr" where
  "templates_prompt g =
     str_of ''You are a creative story template generator. Generate 3 unique and exciting ''
     @ g @ str_of '' story templates.\<newline>''
     @ str_of ''    \<newline>''
     @ str_of ''    Format each template EXACTLY like this:\<newline>''
     @ str_of ''    TEMPLATE 1: [Catchy Title]\<newline>''
     @ str_of ''    [2-3 sentence exciting premise]\<newline>''
     @ str_of ''    \<newline>''
     @ str_of ''    TEMPLATE 2: [Catchy Title]\<newline>''
     @ str_of ''    [2-3 sentence exciting premise]\<newline>''
     @ str_of ''    \<newline>''
     @ str_of ''    TEMPLATE 3: [Catchy Title]\<newline>''
     @ str_of ''    [2-3 sentence exciting premise]\<newline>''
     @ str_of ''    \<newline>''
     @ str_of ''    Make them diverse and intriguing. Keep titles under 5 words.''"

text \<open>
  The templates of the \<^verbatim>\<open>except\<close> branch of \<^verbatim>\<open>generate_story_templates\<close>.
  \<^verbatim>\<open>genre.title()\<close> is the library's title-casing, taken as a parameter.
\<close>

definition genre_templates :: "(pystr \<Rightarrow> pystr) \<Rightarrow> pystr \<Rightarrow> templates" where
  "genre_templates title_case g =
     [(str_of ''template_1'',
        \<lparr>title = title_case g @ str_of '' Adventure'',
         premise = str_of ''A thrilling journey begins...''\<rparr>),
      (str_of ''template_2'',
        \<lparr>title = str_of ''The '' @ title_case g @ str_of '' Mystery'',
         premise = str_of ''Something strange is happening...''\<rparr>),
      (str_of ''template_3'',
        \<lparr>title = title_case g @ str_of '' Quest'',
         premise = str_of ''An epic quest awaits...''\<rparr>)]"

text \<open>The bare \<^verbatim>\<open>except:\<close> covers the call and the parse.\<close>

definition generate_story_templates :: "(pystr \<Rightarrow> pystr) \<Rightarrow> llm \<Rightarrow> pystr \<Rightarrow> templates" where
  "generate_story_templates title_case call g =
     (case call [] (templates_prompt g) 400 of
        Inl e \<Rightarrow> genre_templates title_case g
      | Inr response \<Rightarrow>
          (case parse_templates response of
             Inl e \<Rightarrow> genre_templates title_case g
           | Inr tmpls \<Rightarrow> tmpls))"

section \<open>The system prompt\<close>

definition build_system_prompt :: "session \<Rightarrow> pystr \<Rightarrow> pystr \<Rightarrow> pystr" where
  "build_system_prompt user_data g m =
     (let base0 = str_of ''You are a creative storyteller specializing in '' @ g
                  @ str_of '' stories.'';
          base1 =
            (if m = str_of ''guided'' then
               base0 @ str_of ''\<newline>You lead the story. Create engaging narratives that respond to the user's reactions. Keep responses to 2-3 paragraphs.''
             else if m = str_of ''adventure'' then
               base0 @ str_of ''\<newline>Present the user with meaningful choices. End each response with 2-3 options for what they can do next. Format like: 'What do you do? A) ... B) ... C) ...'' @ [39]
             else if m = str_of ''cowrite'' then
               base0 @ str_of ''\<newline>You and the user take turns writing the story. Build on what they write, then pause for their next contribution. Keep responses to 1-2 paragraphs.''
             else base0);
          base2 =
            (case character_name user_data of
               None \<Rightarrow> base1
             | Some nm \<Rightarrow>
                 base1 @ str_of ''\<newline>\<newline>The protagonist is '' @ nm @ str_of '', who is ''
                 @ get_or (character_traits user_data) (str_of ''mysterious'')
                 @ str_of ''. Background: ''
                 @ get_or (character_background user_data) (str_of ''an adventurer'')
                 @ str_of ''. Keep this character consistent throughout the story.'');
          base3 =
            (case template user_data of
               None \<Rightarrow> base2
             | Some t \<Rightarrow> base2 @ str_of ''\<newline>\<newline>Story premise: '' @ premise t)
      in base3 @ str_of ''\<newline>\<newline>Be descriptive, engaging, and immersive. Keep the user engaged!'')"

section \<open>Story turns\<close>

text \<open>
  A handler is a function from the session (and the event's text) to the session it
  leaves and the reply it sends. A reply carries the parts of the message that depend
  on the session; the status messages shown and deleted while the call runs are left
  out, and the chat transport is taken to deliver what it is given.
  \<open>Raised e\<close> is an exception that leaves the handler.
\<close>

type_synonym byte = "8 word"

datatype reply =
    StoryReply pystr nat nat
  | GenerationFailed pystr
  | RetrySucceeded pystr nat nat
  | RetryFailed pystr
  | NothingToRetry
  | Raised pyexc
  | NoStoryToSave
  | Document "byte list" pystr nat nat nat
  | ConfirmPrompt nat
  | GenreMenu
  | StoryPreserved nat

text \<open>
  \<^verbatim>\<open>if history and history[-1]['role'] == 'user': history.pop()\<close>, the rollback of both
  \<^verbatim>\<open>except\<close> branches.
\<close>

definition pop_user :: "message list \<Rightarrow> message list" where
  "pop_user history =
     (if history \<noteq> [] \<and> role (last history) = User then butlast history else history)"

text \<open>The first block of \<^verbatim>\<open>generate_story\<close>: a session without history is started.\<close>

definition init_story :: "session \<Rightarrow> session" where
  "init_story s =
     (if story_history s = None
      then s\<lparr>story_history := Some [],
             genre := Some (str_of ''adventure''),
             mode := Some (str_of ''guided'')\<rparr>
      else s)"

text \<open>\<^verbatim>\<open>story_history.append({'role': 'user', 'content': text})\<close> on a history that is there.\<close>

definition append_user :: "session \<Rightarrow> pystr \<Rightarrow> session" where
  "append_user s text =
     s\<lparr>story_history :=
         Some (get_or (story_history s) [] @ [\<lparr>role = User, content = text\<rparr>])\<rparr>"

text \<open>
  The first lines of the \<^verbatim>\<open>try\<close> of \<^verbatim>\<open>generate_story\<close> and of \<^verbatim>\<open>retry_last\<close>: the
  prompt is built from the session and the call is made on its history.
\<close>

definition story_call :: "llm \<Rightarrow> session \<Rightarrow> pystr + pystr" where
  "story_call call s =
     (let g = get_or (genre s) (str_of ''adventure'');
          m = get_or (mode s) (str_of ''guided'');
          system_prompt = build_system_prompt s g m
      in call (get_or (story_history s) []) system_prompt 500)"

definition generate_story :: "llm \<Rightarrow> session \<Rightarrow> pystr \<Rightarrow> session \<times> reply" where
  "generate_story call s user_message =
     (let s1 = append_user (init_story s) user_message;
          history1 = get_or (story_history s1) [];
          turn = get_story_progress s1
      in case story_call call s1 of
           Inr story_text \<Rightarrow>
             (s1\<lparr>story_history :=
                   Some (history1 @ [\<lparr>role = Assistant, content = story_text\<rparr>])\<rparr>,
              StoryReply story_text turn (length (split_ws story_text)))
         | Inl e \<Rightarrow>
             (s1\<lparr>story_history := Some (pop_user history1),
                 last_failed_message := Some user_message\<rparr>,
              GenerationFailed e))"

definition retry_last :: "llm \<Rightarrow> session \<Rightarrow> session \<times> reply" where
  "retry_last call s =
     (if \<not> truthy (last_failed_message s) then (s, NothingToRetry)
      else if story_history s = None then (s, Raised KeyError)
      else
        (let last_message = get_or (last_failed_message s) [];
             s1 = append_user s last_message;
             history1 = get_or (story_history s1) []
         in case story_call call s1 of
              Inr story_text \<Rightarrow>
                (let s2 = s1\<lparr>story_history :=
                               Some (history1 @ [\<lparr>role = Assistant, content = story_text\<rparr>]),
                             last_failed_message := None\<rparr>
                 in (s2, RetrySucceeded story_text (get_story_progress s2)
                           (length (split_ws story_text))))
            | Inl e \<Rightarrow>
                (s1\<lparr>story_history := Some (pop_user history1)\<rparr>, RetryFailed e)))"

section \<open>Character creation\<close>

text \<open>
  The states of the conversation handler, and what a step does: \<open>Reprompt st\<close> sends
  the validation message and returns \<open>st\<close>, \<open>Advance st\<close> sends the next prompt and
  returns \<open>st\<close>, \<open>Failed e\<close> is an exception that leaves the handler.
\<close>

datatype conv_state = WAITING_NAME | WAITING_TRAITS | WAITING_BACKGROUND | END

datatype step = Reprompt conv_state | Advance conv_state | Failed pyexc

definition receive_name :: "session \<Rightarrow> pystr \<Rightarrow> session \<times> step" where
  "receive_name s text =
     (let nm = strip text in
      if length nm < 2 \<or> length nm > 30 then (s, Reprompt WAITING_NAME)
      else (s\<lparr>character_name := Some nm\<rparr>, Advance WAITING_TRAITS))"

definition receive_traits :: "session \<Rightarrow> pystr \<Rightarrow> session \<times> step" where
  "receive_traits s text =
     (let traits = strip text in
      if length traits < 3 then (s, Reprompt WAITING_TRAITS)
      else
        (let s1 = s\<lparr>character_traits := Some traits\<rparr> in
         case character_name s1 of
           None \<Rightarrow> (s1, Failed KeyError)
         | Some nm \<Rightarrow> (s1, Advance WAITING_BACKGROUND)))"

definition receive_background :: "session \<Rightarrow> pystr \<Rightarrow> session \<times> step" where
  "receive_background s text =
     (let background = strip text in
      if length background < 10 then (s, Reprompt WAITING_BACKGROUND)
      else
        (let s1 = s\<lparr>character_background := Some background, story_history := Some []\<rparr> in
         case character_name s1 of
           None \<Rightarrow> (s1, Failed KeyError)
         | Some nm \<Rightarrow>
             (case character_traits s1 of
                None \<Rightarrow> (s1, Failed KeyError)
              | Some traits \<Rightarrow> (s1, Advance END))))"

section \<open>Saving the story\<close>

text \<open>\<^verbatim>\<open>text.encode('utf-8')\<close>: a surrogate code point cannot be encoded.\<close>

definition utf8_char :: "nat \<Rightarrow> pyexc + byte list" where
  "utf8_char c =
     (if c < 128 then Inr [of_nat c]
      else if c < 2048 then Inr [of_nat (192 + c div 64), of_nat (128 + c mod 64)]
      else if c < 65536 then
        (if 55296 \<le> c \<and> c \<le> 57343 then Inl UnicodeEncodeError
         else Inr [of_nat (224 + c div 4096), of_nat (128 + c div 64 mod 64),
                   of_nat (128 + c mod 64)])
      else Inr [of_nat (240 + c div 262144), of_nat (128 + c div 4096 mod 64),
                of_nat (128 + c div 64 mod 64), of_nat (128 + c mod 64)])"

fun encode_utf8 :: "pystr \<Rightarrow> pyexc + byte list" where
  "encode_utf8 [] = Inr []"
| "encode_utf8 (c # cs) =
     and_then (utf8_char c) (\<lambda>bs.
     and_then (encode_utf8 cs) (\<lambda>rest. Inr (bs @ rest)))"

text \<open>
  The loop over \<^verbatim>\<open>enumerate(story_history, 1)\<close>; \<open>61\<close> is \<^verbatim>\<open>=\<close>, \<open>45\<close> is \<^verbatim>\<open>-\<close>, and the
  two code points above ASCII are the emoji of the two labels.
\<close>

fun format_history :: "nat \<Rightarrow> message list \<Rightarrow> pystr" where
  "format_history i [] = []"
| "format_history i (msg # rest) =
     (if role msg = User
      then 129489 # str_of '' YOU (Turn '' @ str_nat ((i + 1) div 2) @ str_of ''):\<newline>''
           @ content msg @ str_of ''\<newline>\<newline>''
      else 128214 # str_of '' STORY:\<newline>'' @ content msg @ str_of ''\<newline>\<newline>'')
     @ replicate 50 45 @ str_of ''\<newline>\<newline>''
     @ format_history (i + 1) rest"

definition word_count :: "message list \<Rightarrow> nat" where
  "word_count history = sum_list (map (\<lambda>msg. length (split_ws (content msg))) history)"

definition story_document :: "session \<Rightarrow> message list \<Rightarrow> pystr" where
  "story_document s history =
     (let g = get_or (genre s) (str_of ''adventure'');
          mode_label =
            (case map_of STORY_MODES (get_or (mode s) (str_of ''guided'')) of
               None \<Rightarrow> str_of ''Story''
             | Some info \<Rightarrow> name info);
          turn_count = get_story_progress s;
          header =
            replicate 50 61 @ str_of ''\<newline>''
            @ str_of ''  '' @ get_or (map_of GENRES g) (str_of ''Story'') @ str_of '' - ''
            @ mode_label @ str_of ''\<newline>''
            @ str_of ''  Turns: '' @ str_nat turn_count @ str_of ''\<newline>''
            @ replicate 50 61 @ str_of ''\<newline>\<newline>'';
          protagonist =
            (case character_name s of
               None \<Rightarrow> []
             | Some nm \<Rightarrow>
                 str_of ''PROTAGONIST: '' @ nm @ str_of ''\<newline>''
                 @ str_of ''TRAITS: '' @ get_or (character_traits s) (str_of ''N/A'')
                 @ str_of ''\<newline>''
                 @ str_of ''BACKGROUND: '' @ get_or (character_background s) (str_of ''N/A'')
                 @ str_of ''\<newline>\<newline>''
                 @ replicate 50 45 @ str_of ''\<newline>\<newline>'')
      in header @ protagonist @ format_history 1 history
         @ str_of ''\<newline>'' @ replicate 50 61 @ str_of ''\<newline>''
         @ str_of ''Total words: '' @ str_nat (word_count history) @ str_of ''\<newline>''
         @ str_of ''Generated by StoryBot\<newline>''
         @ replicate 50 61)"

text \<open>
  \<open>Document bytes filename turns words exchanges\<close> is the file sent with
  \<^verbatim>\<open>reply_document\<close> and the three counts of its caption.
\<close>

definition save_story :: "session \<Rightarrow> session \<times> reply" where
  "save_story s =
     (case story_history s of
        None \<Rightarrow> (s, NoStoryToSave)
      | Some history \<Rightarrow>
          if length history = 0 then (s, NoStoryToSave)
          else
            (case encode_utf8 (story_document s history) of
               Inl e \<Rightarrow> (s, Raised e)
             | Inr bytes \<Rightarrow>
                 (s, Document bytes
                       (str_of ''story_'' @ get_or (genre s) (str_of ''adventure'') @ str_of ''_''
                        @ str_nat (get_story_progress s) @ str_of ''turns.txt'')
                       (get_story_progress s) (word_count history) (length history))))"

section \<open>Starting a new story\<close>




section \<open>Facts about strings\<close>

lemma strip_eval: "strip s = rev (dropWhile is_space (rev (dropWhile is_space s)))"
  by (simp add: strip_def lstrip_def rstrip_def)

lemma strip_Nil [simp]: "strip [] = []"
  by (simp add: strip_eval)











lemma split_once_length: "length (split_once sep s) = 2 \<longleftrightarrow> sep \<in> set s"
  by (simp add: split_once_def)

lemma split_once_first:
  "sep \<in> set s \<Longrightarrow> split_once sep s ! 0 = takeWhile (\<lambda>c. c \<noteq> sep) s"
  by (simp add: split_once_def)

section \<open>Facts about the template dictionary\<close>

lemma keys_dict_set:
  "map fst (dict_set k v d) = (if k \<in> fst ` set d then map fst d else map fst d @ [k])"
  by (induction d) (auto simp: rev_image_eqI)

lemma set_keys_dict_set: "fst ` set (dict_set k v d) = insert k (fst ` set d)"
  using keys_dict_set [of k v d]
  by (metis (no_types, lifting) insert_absorb list.set_map list.simps(15) rotate1.simps(2)
      set_rotate1)

lemma distinct_keys_dict_set:
  "distinct (map fst d) \<Longrightarrow> distinct (map fst (dict_set k v d))"
  by (simp add: keys_dict_set)





section \<open>Facts about the parsing loop\<close>









text \<open>
  The loop never raises: the current template is always a key of the dictionary, so
  the lookup in the flush succeeds. The keys it collects are distinct, and they are
  the keys that the marker lines name.
\<close>

lemma flush_keeps_keys:
  assumes "\<forall>k. cur = Some k \<longrightarrow> k \<in> fst ` set T"
  shows "\<exists>T'. flush T cur P = Inr T' \<and> map fst T' = map fst T"
proof (cases "truthy cur \<and> P \<noteq> []")
  case False
  then show ?thesis by (auto simp: flush_def)
next
  case True
  then obtain k where k: "cur = Some k" by (cases cur) (auto simp: truthy_def)
  with assms have "k \<in> fst ` set T" by simp
  then obtain t where t: "map_of T k = Some t"
    by (metis map_of_eq_None_iff not_Some_eq)
  then show ?thesis
    using True k \<open>k \<in> fst ` set T\<close> by (simp add: flush_def keys_dict_set)
qed

lemma parse_line_keys:
  assumes cur: "\<forall>k. cur = Some k \<longrightarrow> k \<in> fst ` set T" and dist: "distinct (map fst T)"
  shows "\<exists>T' cur' P'. parse_line (T, cur, P) l = Inr (T', cur', P')
           \<and> (\<forall>k. cur' = Some k \<longrightarrow> k \<in> fst ` set T')
           \<and> distinct (map fst T')
           \<and> set (map fst T') = set (map fst T) \<union> set (line_keys [l])"
proof (cases "prefix (str_of ''TEMPLATE'') (strip l)")
  case False
  then show ?thesis
    using cur dist by (auto simp: parse_line_def Let_def line_keys_def)
next
  case True
  from flush_keeps_keys [OF cur, of P] obtain T1
    where T1: "flush T cur P = Inr T1" "map fst T1 = map fst T" by blast
  have set1: "fst ` set T1 = fst ` set T"
    using T1(2) by (metis list.set_map)
  show ?thesis
  proof (cases "58 \<in> set (strip l)")
    case False
    then show ?thesis
      using True T1 cur dist set1
      by (auto simp: parse_line_def Let_def line_keys_def and_then_def split_once_def)
  next
    case colon: True
    let ?k = "template_key (takeWhile (\<lambda>c. c \<noteq> 58) (strip l))"
    have "parse_line (T, cur, P) l
            = Inr (dict_set ?k \<lparr>title = strip (split_once 58 (strip l) ! 1), premise = []\<rparr> T1,
                   Some ?k, [])"
      using True colon T1(1)
      by (simp add: parse_line_def Let_def and_then_def split_once_length split_once_first)
    moreover have "line_keys [l] = [?k]"
      using True colon by (simp add: line_keys_def)
    ultimately show ?thesis
      using dist T1(2) set1 by (simp add: set_keys_dict_set distinct_keys_dict_set)
  qed
qed

lemma line_keys_Cons: "set (line_keys (l # ls)) = set (line_keys [l]) \<union> set (line_keys ls)"
  by (auto simp: line_keys_def)

lemma parse_lines_keys:
  assumes "\<forall>k. cur = Some k \<longrightarrow> k \<in> fst ` set T" and "distinct (map fst T)"
  shows "\<exists>T' cur' P'. parse_lines (T, cur, P) ls = Inr (T', cur', P')
           \<and> (\<forall>k. cur' = Some k \<longrightarrow> k \<in> fst ` set T')
           \<and> distinct (map fst T')
           \<and> set (map fst T') = set (map fst T) \<union> set (line_keys ls)"
  using assms
proof (induction ls arbitrary: T cur P)
  case Nil
  then show ?case by (simp add: line_keys_def)
next
  case (Cons l ls)
  from parse_line_keys [OF Cons.prems, of P l] obtain T1 cur1 P1
    where step: "parse_line (T, cur, P) l = Inr (T1, cur1, P1)"
      and inv: "\<forall>k. cur1 = Some k \<longrightarrow> k \<in> fst ` set T1" "distinct (map fst T1)"
      and keys: "set (map fst T1) = set (map fst T) \<union> set (line_keys [l])"
    by blast
  from Cons.IH [OF inv, of P1] obtain T2 cur2 P2
    where rest: "parse_lines (T1, cur1, P1) ls = Inr (T2, cur2, P2)"
      and inv2: "\<forall>k. cur2 = Some k \<longrightarrow> k \<in> fst ` set T2" "distinct (map fst T2)"
      and keys2: "set (map fst T2) = set (map fst T1) \<union> set (line_keys ls)"
    by blast
  have "parse_lines (T, cur, P) (l # ls) = Inr (T2, cur2, P2)"
    using step rest by simp
  moreover have "set (map fst T2) = set (map fst T) \<union> set (line_keys (l # ls))"
    using keys keys2 line_keys_Cons [of l ls] by (simp add: Un_assoc)
  ultimately show ?case using inv2 by blast
qed

lemma parsed_templates_keys:
  "\<exists>found. parsed_templates raw = Inr found
     \<and> distinct (map fst found) \<and> set (map fst found) = set (marker_keys raw)"
proof -
  from parse_lines_keys [of None "[]" "[]" "split_on 10 (strip raw)"] obtain T cur P
    where run: "parse_lines ([], None, []) (split_on 10 (strip raw)) = Inr (T, cur, P)"
      and inv: "\<forall>k. cur = Some k \<longrightarrow> k \<in> fst ` set T" "distinct (map fst T)"
      and keys: "set (map fst T) = set (line_keys (split_on 10 (strip raw)))"
    by auto
  from flush_keeps_keys [OF inv(1), of P] obtain found
    where found: "flush T cur P = Inr found" "map fst found = map fst T" by blast
  have "parsed_templates raw = Inr found"
    using run found(1) by (simp add: parsed_templates_def and_then_def)
  moreover have "distinct (map fst found)"
    using inv(2) found(2) by simp
  moreover have "set (map fst found) = set (marker_keys raw)"
    unfolding found(2) keys by (simp add: marker_keys_def)
  ultimately show ?thesis by blast
qed


section \<open>Properties of the template parser\<close>

text \<open>
  C3 (as the code has it). The fallback is substituted by \<^verbatim>\<open>parse_templates\<close> itself,
  and what it counts is the entries it has collected, one for each key that a marker
  line names, whether or not a premise follows the marker: with fewer than 3 entries it
  returns the fixed three default templates, otherwise the entries as they are, and
  it never raises. \<^verbatim>\<open>generate_story_templates\<close> hands that result on unchanged when
  the generation call returns.
\<close>

theorem parse_templates_substitutes_default:
  "\<exists>found. parsed_templates raw = Inr found
     \<and> length found = card (set (marker_keys raw))
     \<and> parse_templates raw = Inr (if length found < 3 then default_templates else found)
     \<and> (call [] (templates_prompt g) 400 = Inr raw \<longrightarrow>
          generate_story_templates title_case call g
            = (if length found < 3 then default_templates else found))"
proof -
  from parsed_templates_keys [of raw] obtain found
    where found: "parsed_templates raw = Inr found"
      and dist: "distinct (map fst found)"
      and keys: "set (map fst found) = set (marker_keys raw)"
    by blast
  have "length found = card (set (marker_keys raw))"
    using distinct_card [OF dist] keys by simp
  moreover have p: "parse_templates raw = Inr (if length found < 3 then default_templates else found)"
    using found by (auto simp: parse_templates_def and_then_def)
  moreover have "call [] (templates_prompt g) 400 = Inr raw \<longrightarrow>
          generate_story_templates title_case call g
            = (if length found < 3 then default_templates else found)"
    using p by (simp add: generate_story_templates_def)
  ultimately show ?thesis using found by blast
qed

text \<open>
  An instance: a text with two markers. Two keys are named, so the three default
  templates are returned and delivered.
\<close>

theorem parse_templates_substitutes_default_witness:
  "parse_templates (str_of ''TEMPLATE 1: A\<newline>x\<newline>TEMPLATE 2: B\<newline>y'') = Inr default_templates
   \<and> generate_story_templates (\<lambda>g. g)
        (\<lambda>h p n. Inr (str_of ''TEMPLATE 1: A\<newline>x\<newline>TEMPLATE 2: B\<newline>y'')) (str_of ''fantasy'')
       = default_templates"
proof -
  have keys: "marker_keys (str_of ''TEMPLATE 1: A\<newline>x\<newline>TEMPLATE 2: B\<newline>y'')
                = [str_of ''template_1'', str_of ''template_2'']"
    by (simp add: marker_keys_def line_keys_def template_key_def strip_eval is_space_def
        str_of_def)
  have call: "(\<lambda>h p n. Inr (str_of ''TEMPLATE 1: A\<newline>x\<newline>TEMPLATE 2: B\<newline>y''))
                [] (templates_prompt (str_of ''fantasy'')) 400
              = (Inr (str_of ''TEMPLATE 1: A\<newline>x\<newline>TEMPLATE 2: B\<newline>y'') :: pystr + pystr)"
    by simp
  have small: "card (set [str_of ''template_1'', str_of ''template_2'']) < 3"
    by (simp add: str_of_def)
  show ?thesis
    using parse_templates_substitutes_default
      [of "str_of ''TEMPLATE 1: A\<newline>x\<newline>TEMPLATE 2: B\<newline>y''"
          "\<lambda>h p n. Inr (str_of ''TEMPLATE 1: A\<newline>x\<newline>TEMPLATE 2: B\<newline>y'')"
          "str_of ''fantasy''" "\<lambda>g. g"]
      small
    unfolding keys by auto
qed

text \<open>
  C3 (as it is stated) fails. The third marker of this text has an empty body, so only
  two of the seeds are completed, and yet the parsed templates, the third with its
  empty premise, are what is delivered: not the default ones.
\<close>

theorem parse_templates_empty_body_counterexample:
  "parsed_templates (str_of ''TEMPLATE 1: A\<newline>x\<newline>TEMPLATE 2: B\<newline>y\<newline>TEMPLATE 3: C'')
     = Inr [(str_of ''template_1'', \<lparr>title = str_of ''A'', premise = str_of ''x''\<rparr>),
            (str_of ''template_2'', \<lparr>title = str_of ''B'', premise = str_of ''y''\<rparr>),
            (str_of ''template_3'', \<lparr>title = str_of ''C'', premise = []\<rparr>)]
   \<and> length (completed_seeds
        [(str_of ''template_1'', \<lparr>title = str_of ''A'', premise = str_of ''x''\<rparr>),
         (str_of ''template_2'', \<lparr>title = str_of ''B'', premise = str_of ''y''\<rparr>),
         (str_of ''template_3'', \<lparr>title = str_of ''C'', premise = []\<rparr>)]) = 2
   \<and> generate_story_templates (\<lambda>g. g)
        (\<lambda>h p n. Inr (str_of ''TEMPLATE 1: A\<newline>x\<newline>TEMPLATE 2: B\<newline>y\<newline>TEMPLATE 3: C''))
        (str_of ''fantasy'')
       = [(str_of ''template_1'', \<lparr>title = str_of ''A'', premise = str_of ''x''\<rparr>),
          (str_of ''template_2'', \<lparr>title = str_of ''B'', premise = str_of ''y''\<rparr>),
          (str_of ''template_3'', \<lparr>title = str_of ''C'', premise = []\<rparr>)]
   \<and> generate_story_templates (\<lambda>g. g)
        (\<lambda>h p n. Inr (str_of ''TEMPLATE 1: A\<newline>x\<newline>TEMPLATE 2: B\<newline>y\<newline>TEMPLATE 3: C''))
        (str_of ''fantasy'')
       \<noteq> default_templates"
proof -
  have found:
    "parsed_templates (str_of ''TEMPLATE 1: A\<newline>x\<newline>TEMPLATE 2: B\<newline>y\<newline>TEMPLATE 3: C'')
     = Inr [(str_of ''template_1'', \<lparr>title = str_of ''A'', premise = str_of ''x''\<rparr>),
            (str_of ''template_2'', \<lparr>title = str_of ''B'', premise = str_of ''y''\<rparr>),
            (str_of ''template_3'', \<lparr>title = str_of ''C'', premise = []\<rparr>)]"
    by (simp add: parsed_templates_def parse_line_def flush_def and_then_def truthy_def
        template_key_def split_once_def strip_eval is_space_def str_of_def Let_def)
  have delivered:
    "generate_story_templates (\<lambda>g. g)
        (\<lambda>h p n. Inr (str_of ''TEMPLATE 1: A\<newline>x\<newline>TEMPLATE 2: B\<newline>y\<newline>TEMPLATE 3: C''))
        (str_of ''fantasy'')
       = [(str_of ''template_1'', \<lparr>title = str_of ''A'', premise = str_of ''x''\<rparr>),
          (str_of ''template_2'', \<lparr>title = str_of ''B'', premise = str_of ''y''\<rparr>),
          (str_of ''template_3'', \<lparr>title = str_of ''C'', premise = []\<rparr>)]"
    by (simp add: generate_story_templates_def parse_templates_def found and_then_def)
  show ?thesis
    unfolding delivered found
    by (simp add: completed_seeds_def default_templates_def str_of_def)
qed





section \<open>Properties of the generation call\<close>

text \<open>What the three handlers of \<^verbatim>\<open>call_llm\<close> do catch.\<close>

lemma call_llm_handled:
  "call_llm Timeout = Inl (Exception (str_of ''Request timed out. Please try again.''))"
  "call_llm (RequestFailed e) = Inl (Exception (str_of ''Connection error: '' @ e))"
  "response_content result = Inl KeyError \<Longrightarrow>
     call_llm (Body result) = Inl (Exception (str_of ''Unexpected response format from AI.''))"
  by (simp_all add: call_llm_def)

text \<open>
  C4. Every failure of the generation call is to leave \<^verbatim>\<open>call_llm\<close> as the one
  \<^verbatim>\<open>Exception\<close> with a readable message. A timeout, a failed request and a body with a
  missing key do. A body whose \<^verbatim>\<open>choices\<close> is the empty list does not: subscripting it
  with \<^verbatim>\<open>0\<close> raises \<^verbatim>\<open>IndexError\<close>, for which \<^verbatim>\<open>call_llm\<close> has no handler, and the
  \<^verbatim>\<open>IndexError\<close> leaves the function unconverted.
\<close>

theorem call_llm_empty_choices_escapes:
  "call_llm (Body (JObj [(str_of ''choices'', JArr [])])) = Inl IndexError"
  by (simp add: call_llm_def response_content_def and_then_def subscript_key_def
      subscript_index_def str_of_def)

section \<open>Properties of story turns\<close>

lemma pop_user_append_user: "pop_user (h @ [\<lparr>role = User, content = t\<rparr>]) = h"
  by (simp add: pop_user_def)

lemma story_history_init: "story_history (init_story s) = Some (get_or (story_history s) [])"
  by (cases "story_history s") (simp_all add: init_story_def get_or_def)

lemma generate_story_success_state:
  assumes "story_call call (append_user (init_story s) t) = Inr story"
  shows "story_history (fst (generate_story call s t))
           = Some (get_or (story_history s) []
                   @ [\<lparr>role = User, content = t\<rparr>, \<lparr>role = Assistant, content = story\<rparr>])"
    and "last_failed_message (fst (generate_story call s t)) = last_failed_message s"
  using assms
  by (simp_all add: generate_story_def Let_def append_user_def story_history_init get_or_def
      init_story_def)

text \<open>
  C1. When the generation call of \<^verbatim>\<open>generate_story\<close> succeeds, the history grows by the
  user turn and the assistant turn, as the lemma above says for every session; the
  message kept for a retry is to be cleared, and is not. Here the first message of a
  new session fails and the second succeeds: the history holds the two turns of the
  second message, and the first message is still kept for a retry.
\<close>

theorem generate_story_success_keeps_failed_message:
  "story_history (fst (generate_story (\<lambda>h p n. Inr (str_of ''Once''))
       (fst (generate_story (\<lambda>h p n. Inl (str_of ''Request timed out. Please try again.''))
               empty_session (str_of ''A'')))
       (str_of ''B'')))
     = Some [\<lparr>role = User, content = str_of ''B''\<rparr>,
             \<lparr>role = Assistant, content = str_of ''Once''\<rparr>]
   \<and> last_failed_message (fst (generate_story (\<lambda>h p n. Inr (str_of ''Once''))
       (fst (generate_story (\<lambda>h p n. Inl (str_of ''Request timed out. Please try again.''))
               empty_session (str_of ''A'')))
       (str_of ''B'')))
     = Some (str_of ''A'')"
  by (simp add: generate_story_def Let_def append_user_def init_story_def story_call_def
      empty_session_def get_or_def pop_user_def)

text \<open>
  C2. When the generation call of \<^verbatim>\<open>generate_story\<close> fails, the history is the one the
  session had before the call (the empty one for a session that had none), so it has
  the length it had; the submitted text is kept in \<^verbatim>\<open>last_failed_message\<close>; and the
  reply is the failure with the message of the error.
\<close>

theorem generate_story_failure_rolls_back:
  assumes fails: "story_call call (append_user (init_story s) t) = Inl e"
  shows "story_history (fst (generate_story call s t)) = Some (get_or (story_history s) [])
       \<and> length (get_or (story_history (fst (generate_story call s t))) [])
           = length (get_or (story_history s) [])
       \<and> last_failed_message (fst (generate_story call s t)) = Some t
       \<and> snd (generate_story call s t) = GenerationFailed e"
  using fails
  by (simp add: generate_story_def Let_def append_user_def story_history_init
      pop_user_append_user get_or_def)

text \<open>An instance: a timeout on the second message of a story.\<close>

theorem generate_story_failure_rolls_back_witness:
  "story_call (\<lambda>h p n. Inl (str_of ''Request timed out. Please try again.''))
     (append_user
        (init_story (empty_session\<lparr>story_history :=
           Some [\<lparr>role = User, content = str_of ''hi''\<rparr>,
                 \<lparr>role = Assistant, content = str_of ''Once''\<rparr>]\<rparr>))
        (str_of ''go''))
     = Inl (str_of ''Request timed out. Please try again.'')
   \<and> story_history (fst (generate_story
        (\<lambda>h p n. Inl (str_of ''Request timed out. Please try again.''))
        (empty_session\<lparr>story_history :=
           Some [\<lparr>role = User, content = str_of ''hi''\<rparr>,
                 \<lparr>role = Assistant, content = str_of ''Once''\<rparr>]\<rparr>)
        (str_of ''go'')))
     = Some [\<lparr>role = User, content = str_of ''hi''\<rparr>,
             \<lparr>role = Assistant, content = str_of ''Once''\<rparr>]
   \<and> last_failed_message (fst (generate_story
        (\<lambda>h p n. Inl (str_of ''Request timed out. Please try again.''))
        (empty_session\<lparr>story_history :=
           Some [\<lparr>role = User, content = str_of ''hi''\<rparr>,
                 \<lparr>role = Assistant, content = str_of ''Once''\<rparr>]\<rparr>)
        (str_of ''go'')))
     = Some (str_of ''go'')
   \<and> snd (generate_story
        (\<lambda>h p n. Inl (str_of ''Request timed out. Please try again.''))
        (empty_session\<lparr>story_history :=
           Some [\<lparr>role = User, content = str_of ''hi''\<rparr>,
                 \<lparr>role = Assistant, content = str_of ''Once''\<rparr>]\<rparr>)
        (str_of ''go''))
     = GenerationFailed (str_of ''Request timed out. Please try again.'')"
proof -
  have fails:
    "story_call (\<lambda>h p n. Inl (str_of ''Request timed out. Please try again.''))
       (append_user
          (init_story (empty_session\<lparr>story_history :=
             Some [\<lparr>role = User, content = str_of ''hi''\<rparr>,
                   \<lparr>role = Assistant, content = str_of ''Once''\<rparr>]\<rparr>))
          (str_of ''go''))
       = Inl (str_of ''Request timed out. Please try again.'')"
    by (simp add: story_call_def)
  show ?thesis
    using fails generate_story_failure_rolls_back [OF fails]
    by (simp add: get_or_def)
qed

text \<open>
  C5. With \<^verbatim>\<open>last_failed_message\<close> absent or empty, \<^verbatim>\<open>retry_last\<close> answers that there is
  nothing to retry and leaves the session, history included, as it is.
\<close>

theorem retry_last_nothing_to_retry:
  assumes "last_failed_message s = None \<or> last_failed_message s = Some []"
  shows "retry_last call s = (s, NothingToRetry)"
  using assms by (auto simp: retry_last_def truthy_def)

text \<open>Two instances: no failed message, and an empty one.\<close>

theorem retry_last_nothing_to_retry_witness:
  "retry_last (\<lambda>h p n. Inr (str_of ''Once''))
      (empty_session\<lparr>story_history := Some [\<lparr>role = User, content = str_of ''hi''\<rparr>]\<rparr>)
     = (empty_session\<lparr>story_history := Some [\<lparr>role = User, content = str_of ''hi''\<rparr>]\<rparr>,
        NothingToRetry)
   \<and> retry_last (\<lambda>h p n. Inr (str_of ''Once''))
      (empty_session\<lparr>story_history := Some [], last_failed_message := Some []\<rparr>)
     = (empty_session\<lparr>story_history := Some [], last_failed_message := Some []\<rparr>,
        NothingToRetry)"
  using
    retry_last_nothing_to_retry [of
      "empty_session\<lparr>story_history := Some [\<lparr>role = User, content = str_of ''hi''\<rparr>]\<rparr>"
      "\<lambda>h p n. Inr (str_of ''Once'')"]
    retry_last_nothing_to_retry [of
      "empty_session\<lparr>story_history := Some [], last_failed_message := Some []\<rparr>"
      "\<lambda>h p n. Inr (str_of ''Once'')"]
  by (simp add: empty_session_def)

text \<open>
  C10. For a session without \<^verbatim>\<open>story_history\<close>, \<^verbatim>\<open>generate_story\<close> behaves as on the
  session with an empty history, genre \<^verbatim>\<open>adventure\<close> and mode \<^verbatim>\<open>guided\<close>, whatever
  genre and mode the session had: the turn is appended and the prompt is built after
  the overwrite, and the session it leaves has that genre and that mode.
\<close>

theorem generate_story_defaults_overwrite:
  assumes "story_history s = None"
  shows "generate_story call s t
           = generate_story call
               (s\<lparr>story_history := Some [], genre := Some (str_of ''adventure''),
                  mode := Some (str_of ''guided'')\<rparr>) t
       \<and> genre (fst (generate_story call s t)) = Some (str_of ''adventure'')
       \<and> mode (fst (generate_story call s t)) = Some (str_of ''guided'')"
  using assms
  by (simp add: generate_story_def Let_def init_story_def append_user_def split: sum.splits)

text \<open>An instance: the user had chosen horror and co-writing.\<close>

theorem generate_story_defaults_overwrite_witness:
  "genre (fst (generate_story (\<lambda>h p n. Inr (str_of ''Once''))
      (empty_session\<lparr>genre := Some (str_of ''horror''), mode := Some (str_of ''cowrite'')\<rparr>)
      (str_of ''hi''))) = Some (str_of ''adventure'')
   \<and> mode (fst (generate_story (\<lambda>h p n. Inr (str_of ''Once''))
      (empty_session\<lparr>genre := Some (str_of ''horror''), mode := Some (str_of ''cowrite'')\<rparr>)
      (str_of ''hi''))) = Some (str_of ''guided'')"
proof -
  have absent:
    "story_history
       (empty_session\<lparr>genre := Some (str_of ''horror''), mode := Some (str_of ''cowrite'')\<rparr>)
     = None"
    by (simp add: empty_session_def)
  show ?thesis
    using generate_story_defaults_overwrite [OF absent, of "\<lambda>h p n. Inr (str_of ''Once'')"
        "str_of ''hi''", THEN conjunct2]
    by simp
qed

section \<open>Properties of character creation\<close>

text \<open>
  C7. With \<open>n\<close> the length of the stripped text: a name is stored and the traits are
  asked for when \<open>2 \<le> n \<le> 30\<close>; traits are stored when \<open>3 \<le> n\<close>; a background is
  stored, and the history started, when \<open>10 \<le> n\<close>. Otherwise the same step is prompted
  again and the session is unchanged. After storing, the traits and background steps
  read the fields stored by the steps before them, and fail with \<^verbatim>\<open>KeyError\<close> when one
  is absent.
\<close>

theorem character_validation_bounds:
  "(2 \<le> length (strip t) \<and> length (strip t) \<le> 30 \<longrightarrow>
      receive_name s t = (s\<lparr>character_name := Some (strip t)\<rparr>, Advance WAITING_TRAITS))
   \<and> (length (strip t) < 2 \<or> 30 < length (strip t) \<longrightarrow>
      receive_name s t = (s, Reprompt WAITING_NAME))
   \<and> (3 \<le> length (strip t) \<longrightarrow>
      receive_traits s t =
        (s\<lparr>character_traits := Some (strip t)\<rparr>,
         if character_name s = None then Failed KeyError else Advance WAITING_BACKGROUND))
   \<and> (length (strip t) < 3 \<longrightarrow> receive_traits s t = (s, Reprompt WAITING_TRAITS))
   \<and> (10 \<le> length (strip t) \<longrightarrow>
      receive_background s t =
        (s\<lparr>character_background := Some (strip t), story_history := Some []\<rparr>,
         if character_name s = None \<or> character_traits s = None then Failed KeyError
         else Advance END))
   \<and> (length (strip t) < 10 \<longrightarrow> receive_background s t = (s, Reprompt WAITING_BACKGROUND))"
  by (auto simp: receive_name_def receive_traits_def receive_background_def Let_def
      split: option.splits)


text \<open>
  The boundary lengths: names of 1, 2 (padded with spaces), 30 and 31 characters, traits
  of 2 and 3, backgrounds of 9 and 10.
\<close>

theorem character_validation_bounds_witness:
  "receive_name empty_session (str_of ''Z'') = (empty_session, Reprompt WAITING_NAME)
   \<and> receive_name empty_session (str_of '' Ze '')
       = (empty_session\<lparr>character_name := Some (str_of ''Ze'')\<rparr>, Advance WAITING_TRAITS)
   \<and> receive_name empty_session (str_of ''abcdefghijklmnopqrstuvwxyzabcd'')
       = (empty_session\<lparr>character_name := Some (str_of ''abcdefghijklmnopqrstuvwxyzabcd'')\<rparr>,
          Advance WAITING_TRAITS)
   \<and> receive_name empty_session (str_of ''abcdefghijklmnopqrstuvwxyzabcde'')
       = (empty_session, Reprompt WAITING_NAME)
   \<and> receive_traits (empty_session\<lparr>character_name := Some (str_of ''Zed'')\<rparr>) (str_of ''ok'')
       = (empty_session\<lparr>character_name := Some (str_of ''Zed'')\<rparr>, Reprompt WAITING_TRAITS)
   \<and> receive_traits (empty_session\<lparr>character_name := Some (str_of ''Zed'')\<rparr>) (str_of ''sly'')
       = (empty_session\<lparr>character_name := Some (str_of ''Zed''),
                        character_traits := Some (str_of ''sly'')\<rparr>,
          Advance WAITING_BACKGROUND)
   \<and> receive_background
         (empty_session\<lparr>character_name := Some (str_of ''Zed''),
                         character_traits := Some (str_of ''sly'')\<rparr>) (str_of ''An exile.'')
       = (empty_session\<lparr>character_name := Some (str_of ''Zed''),
                        character_traits := Some (str_of ''sly'')\<rparr>,
          Reprompt WAITING_BACKGROUND)
   \<and> receive_background
         (empty_session\<lparr>character_name := Some (str_of ''Zed''),
                         character_traits := Some (str_of ''sly'')\<rparr>) (str_of ''An exile..'')
       = (empty_session\<lparr>character_name := Some (str_of ''Zed''),
                        character_traits := Some (str_of ''sly''),
                        character_background := Some (str_of ''An exile..''),
                        story_history := Some []\<rparr>,
          Advance END)"
  using
    character_validation_bounds [of "str_of ''Z''" empty_session]
    character_validation_bounds [of "str_of '' Ze ''" empty_session]
    character_validation_bounds [of "str_of ''abcdefghijklmnopqrstuvwxyzabcd''" empty_session]
    character_validation_bounds [of "str_of ''abcdefghijklmnopqrstuvwxyzabcde''" empty_session]
    character_validation_bounds [of "str_of ''ok''"
      "empty_session\<lparr>character_name := Some (str_of ''Zed'')\<rparr>"]
    character_validation_bounds [of "str_of ''sly''"
      "empty_session\<lparr>character_name := Some (str_of ''Zed'')\<rparr>"]
    character_validation_bounds [of "str_of ''An exile.''"
      "empty_session\<lparr>character_name := Some (str_of ''Zed''),
                      character_traits := Some (str_of ''sly'')\<rparr>"]
    character_validation_bounds [of "str_of ''An exile..''"
      "empty_session\<lparr>character_name := Some (str_of ''Zed''),
                      character_traits := Some (str_of ''sly'')\<rparr>"]
  by (simp add: strip_eval is_space_def str_of_def empty_session_def)

section \<open>Properties of starting a new story\<close>



section \<open>Properties of saving the story\<close>

text \<open>
  C9. \<^verbatim>\<open>save_story\<close> leaves the session as it is, and its reply, the bytes of the
  document with it, is determined by the session: saving again gives the same reply.
\<close>

theorem save_story_pure:
  "fst (save_story s) = s \<and> save_story (fst (save_story s)) = save_story s"
proof -
  have "fst (save_story s) = s"
    by (simp add: save_story_def split: option.splits sum.splits)
  then show ?thesis by simp
qed

text \<open>
  A worked export: genre fantasy, mode co-writing, no character, one user turn and one
  story turn. First the text of the document, then its bytes.
\<close>

lemma replicate_50:
  "replicate 50 (c::nat)
     = [c, c, c, c, c, c, c, c, c, c, c, c, c, c, c, c, c, c, c, c, c, c, c, c, c,
        c, c, c, c, c, c, c, c, c, c, c, c, c, c, c, c, c, c, c, c, c, c, c, c, c]"
  by (simp add: numeral_eq_Suc)

lemma story_document_example:
  "story_document
     (empty_session\<lparr>genre := Some (str_of ''fantasy''), mode := Some (str_of ''cowrite''),
        story_history := Some [\<lparr>role = User, content = str_of ''hi''\<rparr>,
                               \<lparr>role = Assistant, content = str_of ''Once upon''\<rparr>]\<rparr>)
     [\<lparr>role = User, content = str_of ''hi''\<rparr>,
      \<lparr>role = Assistant, content = str_of ''Once upon''\<rparr>]
   = [
    61, 61, 61, 61, 61, 61, 61, 61, 61, 61, 61, 61, 61, 61, 61, 61, 61, 61, 61, 61,
    61, 61, 61, 61, 61, 61, 61, 61, 61, 61, 61, 61, 61, 61, 61, 61, 61, 61, 61, 61,
    61, 61, 61, 61, 61, 61, 61, 61, 61, 61, 10, 32, 32, 128009, 32, 70, 97, 110,
    116, 97, 115, 121, 32, 45, 32, 9997, 65039, 32, 67, 111, 45, 87, 114, 105, 116,
    101, 10, 32, 32, 84, 117, 114, 110, 115, 58, 32, 49, 10, 61, 61, 61, 61, 61, 61,
    61, 61, 61, 61, 61, 61, 61, 61, 61, 61, 61, 61, 61, 61, 61, 61, 61, 61, 61, 61,
    61, 61, 61, 61, 61, 61, 61, 61, 61, 61, 61, 61, 61, 61, 61, 61, 61, 61, 61, 61,
    61, 61, 61, 61, 10, 10, 129489, 32, 89, 79, 85, 32, 40, 84, 117, 114, 110, 32,
    49, 41, 58, 10, 104, 105, 10, 10, 45, 45, 45, 45, 45, 45, 45, 45, 45, 45, 45,
    45, 45, 45, 45, 45, 45, 45, 45, 45, 45, 45, 45, 45, 45, 45, 45, 45, 45, 45, 45,
    45, 45, 45, 45, 45, 45, 45, 45, 45, 45, 45, 45, 45, 45, 45, 45, 45, 45, 45, 10,
    10, 128214, 32, 83, 84, 79, 82, 89, 58, 10, 79, 110, 99, 101, 32, 117, 112, 111,
    110, 10, 10, 45, 45, 45, 45, 45, 45, 45, 45, 45, 45, 45, 45, 45, 45, 45, 45, 45,
    45, 45, 45, 45, 45, 45, 45, 45, 45, 45, 45, 45, 45, 45, 45, 45, 45, 45, 45, 45,
    45, 45, 45, 45, 45, 45, 45, 45, 45, 45, 45, 45, 45, 10, 10, 10, 61, 61, 61, 61,
    61, 61, 61, 61, 61, 61, 61, 61, 61, 61, 61, 61, 61, 61, 61, 61, 61, 61, 61, 61,
    61, 61, 61, 61, 61, 61, 61, 61, 61, 61, 61, 61, 61, 61, 61, 61, 61, 61, 61, 61,
    61, 61, 61, 61, 61, 61, 10, 84, 111, 116, 97, 108, 32, 119, 111, 114, 100, 115,
    58, 32, 51, 10, 71, 101, 110, 101, 114, 97, 116, 101, 100, 32, 98, 121, 32, 83,
    116, 111, 114, 121, 66, 111, 116, 10, 61, 61, 61, 61, 61, 61, 61, 61, 61, 61,
    61, 61, 61, 61, 61, 61, 61, 61, 61, 61, 61, 61, 61, 61, 61, 61, 61, 61, 61, 61,
    61, 61, 61, 61, 61, 61, 61, 61, 61, 61, 61, 61, 61, 61, 61, 61, 61, 61, 61, 61]"
  by (simp add: story_document_def empty_session_def get_or_def GENRES_def STORY_MODES_def
      get_story_progress_def word_count_def split_ws_def is_space_def str_of_def
      replicate_50 str_nat.simps)

lemma encode_utf8_example:
  "encode_utf8 [
    61, 61, 61, 61, 61, 61, 61, 61, 61, 61, 61, 61, 61, 61, 61, 61, 61, 61, 61, 61,
    61, 61, 61, 61, 61, 61, 61, 61, 61, 61, 61, 61, 61, 61, 61, 61, 61, 61, 61, 61,
    61, 61, 61, 61, 61, 61, 61, 61, 61, 61, 10, 32, 32, 128009, 32, 70, 97, 110,
    116, 97, 115, 121, 32, 45, 32, 9997, 65039, 32, 67, 111, 45, 87, 114, 105, 116,
    101, 10, 32, 32, 84, 117, 114, 110, 115, 58, 32, 49, 10, 61, 61, 61, 61, 61, 61,
    61, 61, 61, 61, 61, 61, 61, 61, 61, 61, 61, 61, 61, 61, 61, 61, 61, 61, 61, 61,
    61, 61, 61, 61, 61, 61, 61, 61, 61, 61, 61, 61, 61, 61, 61, 61, 61, 61, 61, 61,
    61, 61, 61, 61, 10, 10, 129489, 32, 89, 79, 85, 32, 40, 84, 117, 114, 110, 32,
    49, 41, 58, 10, 104, 105, 10, 10, 45, 45, 45, 45, 45, 45, 45, 45, 45, 45, 45,
    45, 45, 45, 45, 45, 45, 45, 45, 45, 45, 45, 45, 45, 45, 45, 45, 45, 45, 45, 45,
    45, 45, 45, 45, 45, 45, 45, 45, 45, 45, 45, 45, 45, 45, 45, 45, 45, 45, 45, 10,
    10, 128214, 32, 83, 84, 79, 82, 89, 58, 10, 79, 110, 99, 101, 32, 117, 112, 111,
    110, 10, 10, 45, 45, 45, 45, 45, 45, 45, 45, 45, 45, 45, 45, 45, 45, 45, 45, 45,
    45, 45, 45, 45, 45, 45, 45, 45, 45, 45, 45, 45, 45, 45, 45, 45, 45, 45, 45, 45,
    45, 45, 45, 45, 45, 45, 45, 45, 45, 45, 45, 45, 45, 10, 10, 10, 61, 61, 61, 61,
    61, 61, 61, 61, 61, 61, 61, 61, 61, 61, 61, 61, 61, 61, 61, 61, 61, 61, 61, 61,
    61, 61, 61, 61, 61, 61, 61, 61, 61, 61, 61, 61, 61, 61, 61, 61, 61, 61, 61, 61,
    61, 61, 61, 61, 61, 61, 10, 84, 111, 116, 97, 108, 32, 119, 111, 114, 100, 115,
    58, 32, 51, 10, 71, 101, 110, 101, 114, 97, 116, 101, 100, 32, 98, 121, 32, 83,
    116, 111, 114, 121, 66, 111, 116, 10, 61, 61, 61, 61, 61, 61, 61, 61, 61, 61,
    61, 61, 61, 61, 61, 61, 61, 61, 61, 61, 61, 61, 61, 61, 61, 61, 61, 61, 61, 61,
    61, 61, 61, 61, 61, 61, 61, 61, 61, 61, 61, 61, 61, 61, 61, 61, 61, 61, 61, 61]
   = Inr [
    61, 61, 61, 61, 61, 61, 61, 61, 61, 61, 61, 61, 61, 61, 61, 61, 61, 61, 61, 61,
    61, 61, 61, 61, 61, 61, 61, 61, 61, 61, 61, 61, 61, 61, 61, 61, 61, 61, 61, 61,
    61, 61, 61, 61, 61, 61, 61, 61, 61, 61, 10, 32, 32, 240, 159, 144, 137, 32, 70,
    97, 110, 116, 97, 115, 121, 32, 45, 32, 226, 156, 141, 239, 184, 143, 32, 67,
    111, 45, 87, 114, 105, 116, 101, 10, 32, 32, 84, 117, 114, 110, 115, 58, 32, 49,
    10, 61, 61, 61, 61, 61, 61, 61, 61, 61, 61, 61, 61, 61, 61, 61, 61, 61, 61, 61,
    61, 61, 61, 61, 61, 61, 61, 61, 61, 61, 61, 61, 61, 61, 61, 61, 61, 61, 61, 61,
    61, 61, 61, 61, 61, 61, 61, 61, 61, 61, 61, 10, 10, 240, 159, 167, 145, 32, 89,
    79, 85, 32, 40, 84, 117, 114, 110, 32, 49, 41, 58, 10, 104, 105, 10, 10, 45, 45,
    45, 45, 45, 45, 45, 45, 45, 45, 45, 45, 45, 45, 45, 45, 45, 45, 45, 45, 45, 45,
    45, 45, 45, 45, 45, 45, 45, 45, 45, 45, 45, 45, 45, 45, 45, 45, 45, 45, 45, 45,
    45, 45, 45, 45, 45, 45, 45, 45, 10, 10, 240, 159, 147, 150, 32, 83, 84, 79, 82,
    89, 58, 10, 79, 110, 99, 101, 32, 117, 112, 111, 110, 10, 10, 45, 45, 45, 45,
    45, 45, 45, 45, 45, 45, 45, 45, 45, 45, 45, 45, 45, 45, 45, 45, 45, 45, 45, 45,
    45, 45, 45, 45, 45, 45, 45, 45, 45, 45, 45, 45, 45, 45, 45, 45, 45, 45, 45, 45,
    45, 45, 45, 45, 45, 45, 10, 10, 10, 61, 61, 61, 61, 61, 61, 61, 61, 61, 61, 61,
    61, 61, 61, 61, 61, 61, 61, 61, 61, 61, 61, 61, 61, 61, 61, 61, 61, 61, 61, 61,
    61, 61, 61, 61, 61, 61, 61, 61, 61, 61, 61, 61, 61, 61, 61, 61, 61, 61, 61, 10,
    84, 111, 116, 97, 108, 32, 119, 111, 114, 100, 115, 58, 32, 51, 10, 71, 101,
    110, 101, 114, 97, 116, 101, 100, 32, 98, 121, 32, 83, 116, 111, 114, 121, 66,
    111, 116, 10, 61, 61, 61, 61, 61, 61, 61, 61, 61, 61, 61, 61, 61, 61, 61, 61,
    61, 61, 61, 61, 61, 61, 61, 61, 61, 61, 61, 61, 61, 61, 61, 61, 61, 61, 61, 61,
    61, 61, 61, 61, 61, 61, 61, 61, 61, 61, 61, 61, 61, 61]"
  by (simp add: utf8_char_def and_then_def)

theorem save_story_pure_witness:
  "save_story (fst (save_story
     (empty_session\<lparr>genre := Some (str_of ''fantasy''), mode := Some (str_of ''cowrite''),
        story_history := Some [\<lparr>role = User, content = str_of ''hi''\<rparr>,
                               \<lparr>role = Assistant, content = str_of ''Once upon''\<rparr>]\<rparr>)))
   = ((empty_session\<lparr>genre := Some (str_of ''fantasy''), mode := Some (str_of ''cowrite''),
        story_history := Some [\<lparr>role = User, content = str_of ''hi''\<rparr>,
                               \<lparr>role = Assistant, content = str_of ''Once upon''\<rparr>]\<rparr>),
      Document [
    61, 61, 61, 61, 61, 61, 61, 61, 61, 61, 61, 61, 61, 61, 61, 61, 61, 61, 61, 61,
    61, 61, 61, 61, 61, 61, 61, 61, 61, 61, 61, 61, 61, 61, 61, 61, 61, 61, 61, 61,
    61, 61, 61, 61, 61, 61, 61, 61, 61, 61, 10, 32, 32, 240, 159, 144, 137, 32, 70,
    97, 110, 116, 97, 115, 121, 32, 45, 32, 226, 156, 141, 239, 184, 143, 32, 67,
    111, 45, 87, 114, 105, 116, 101, 10, 32, 32, 84, 117, 114, 110, 115, 58, 32, 49,
    10, 61, 61, 61, 61, 61, 61, 61, 61, 61, 61, 61, 61, 61, 61, 61, 61, 61, 61, 61,
    61, 61, 61, 61, 61, 61, 61, 61, 61, 61, 61, 61, 61, 61, 61, 61, 61, 61, 61, 61,
    61, 61, 61, 61, 61, 61, 61, 61, 61, 61, 61, 10, 10, 240, 159, 167, 145, 32, 89,
    79, 85, 32, 40, 84, 117, 114, 110, 32, 49, 41, 58, 10, 104, 105, 10, 10, 45, 45,
    45, 45, 45, 45, 45, 45, 45, 45, 45, 45, 45, 45, 45, 45, 45, 45, 45, 45, 45, 45,
    45, 45, 45, 45, 45, 45, 45, 45, 45, 45, 45, 45, 45, 45, 45, 45, 45, 45, 45, 45,
    45, 45, 45, 45, 45, 45, 45, 45, 10, 10, 240, 159, 147, 150, 32, 83, 84, 79, 82,
    89, 58, 10, 79, 110, 99, 101, 32, 117, 112, 111, 110, 10, 10, 45, 45, 45, 45,
    45, 45, 45, 45, 45, 45, 45, 45, 45, 45, 45, 45, 45, 45, 45, 45, 45, 45, 45, 45,
    45, 45, 45, 45, 45, 45, 45, 45, 45, 45, 45, 45, 45, 45, 45, 45, 45, 45, 45, 45,
    45, 45, 45, 45, 45, 45, 10, 10, 10, 61, 61, 61, 61, 61, 61, 61, 61, 61, 61, 61,
    61, 61, 61, 61, 61, 61, 61, 61, 61, 61, 61, 61, 61, 61, 61, 61, 61, 61, 61, 61,
    61, 61, 61, 61, 61, 61, 61, 61, 61, 61, 61, 61, 61, 61, 61, 61, 61, 61, 61, 10,
    84, 111, 116, 97, 108, 32, 119, 111, 114, 100, 115, 58, 32, 51, 10, 71, 101,
    110, 101, 114, 97, 116, 101, 100, 32, 98, 121, 32, 83, 116, 111, 114, 121, 66,
    111, 116, 10, 61, 61, 61, 61, 61, 61, 61, 61, 61, 61, 61, 61, 61, 61, 61, 61,
    61, 61, 61, 61, 61, 61, 61, 61, 61, 61, 61, 61, 61, 61, 61, 61, 61, 61, 61, 61,
    61, 61, 61, 61, 61, 61, 61, 61, 61, 61, 61, 61, 61, 61]
        (str_of ''story_fantasy_1turns.txt'') 1 3 2)"
proof -
  have saved:
    "save_story
       (empty_session\<lparr>genre := Some (str_of ''fantasy''), mode := Some (str_of ''cowrite''),
        story_history := Some [\<lparr>role = User, content = str_of ''hi''\<rparr>,
                               \<lparr>role = Assistant, content = str_of ''Once upon''\<rparr>]\<rparr>)
     = ((empty_session\<lparr>genre := Some (str_of ''fantasy''), mode := Some (str_of ''cowrite''),
        story_history := Some [\<lparr>role = User, content = str_of ''hi''\<rparr>,
                               \<lparr>role = Assistant, content = str_of ''Once upon''\<rparr>]\<rparr>),
        Document [
    61, 61, 61, 61, 61, 61, 61, 61, 61, 61, 61, 61, 61, 61, 61, 61, 61, 61, 61, 61,
    61, 61, 61, 61, 61, 61, 61, 61, 61, 61, 61, 61, 61, 61, 61, 61, 61, 61, 61, 61,
    61, 61, 61, 61, 61, 61, 61, 61, 61, 61, 10, 32, 32, 240, 159, 144, 137, 32, 70,
    97, 110, 116, 97, 115, 121, 32, 45, 32, 226, 156, 141, 239, 184, 143, 32, 67,
    111, 45, 87, 114, 105, 116, 101, 10, 32, 32, 84, 117, 114, 110, 115, 58, 32, 49,
    10, 61, 61, 61, 61, 61, 61, 61, 61, 61, 61, 61, 61, 61, 61, 61, 61, 61, 61, 61,
    61, 61, 61, 61, 61, 61, 61, 61, 61, 61, 61, 61, 61, 61, 61, 61, 61, 61, 61, 61,
    61, 61, 61, 61, 61, 61, 61, 61, 61, 61, 61, 10, 10, 240, 159, 167, 145, 32, 89,
    79, 85, 32, 40, 84, 117, 114, 110, 32, 49, 41, 58, 10, 104, 105, 10, 10, 45, 45,
    45, 45, 45, 45, 45, 45, 45, 45, 45, 45, 45, 45, 45, 45, 45, 45, 45, 45, 45, 45,
    45, 45, 45, 45, 45, 45, 45, 45, 45, 45, 45, 45, 45, 45, 45, 45, 45, 45, 45, 45,
    45, 45, 45, 45, 45, 45, 45, 45, 10, 10, 240, 159, 147, 150, 32, 83, 84, 79, 82,
    89, 58, 10, 79, 110, 99, 101, 32, 117, 112, 111, 110, 10, 10, 45, 45, 45, 45,
    45, 45, 45, 45, 45, 45, 45, 45, 45, 45, 45, 45, 45, 45, 45, 45, 45, 45, 45, 45,
    45, 45, 45, 45, 45, 45, 45, 45, 45, 45, 45, 45, 45, 45, 45, 45, 45, 45, 45, 45,
    45, 45, 45, 45, 45, 45, 10, 10, 10, 61, 61, 61, 61, 61, 61, 61, 61, 61, 61, 61,
    61, 61, 61, 61, 61, 61, 61, 61, 61, 61, 61, 61, 61, 61, 61, 61, 61, 61, 61, 61,
    61, 61, 61, 61, 61, 61, 61, 61, 61, 61, 61, 61, 61, 61, 61, 61, 61, 61, 61, 10,
    84, 111, 116, 97, 108, 32, 119, 111, 114, 100, 115, 58, 32, 51, 10, 71, 101,
    110, 101, 114, 97, 116, 101, 100, 32, 98, 121, 32, 83, 116, 111, 114, 121, 66,
    111, 116, 10, 61, 61, 61, 61, 61, 61, 61, 61, 61, 61, 61, 61, 61, 61, 61, 61,
    61, 61, 61, 61, 61, 61, 61, 61, 61, 61, 61, 61, 61, 61, 61, 61, 61, 61, 61, 61,
    61, 61, 61, 61, 61, 61, 61, 61, 61, 61, 61, 61, 61, 61]
          (str_of ''story_fantasy_1turns.txt'') 1 3 2)"
    supply encode_utf8.simps [simp del]
    by (simp add: save_story_def story_document_example encode_utf8_example)
       (simp add: empty_session_def get_or_def get_story_progress_def word_count_def
          split_ws_def is_space_def str_of_def str_nat.simps)
  show ?thesis
    using save_story_pure [of
     "(empty_session\<lparr>genre := Some (str_of ''fantasy''), mode := Some (str_of ''cowrite''),
        story_history := Some [\<lparr>role = User, content = str_of ''hi''\<rparr>,
                               \<lparr>role = Assistant, content = str_of ''Once upon''\<rparr>]\<rparr>)"]
    by (simp add: saved)
qed

end
